theory Spec2Isabelle
  imports Main
begin

section \<open>AsyncResultDO: the per-key result actor\<close>

text \<open>
  The class \<^verbatim>\<open>AsyncResultDO\<close> keeps one result record in the key-value storage of a
  Durable Object and one alarm. Its four methods (\<^verbatim>\<open>store\<close>, \<^verbatim>\<open>retrieve\<close>,
  \<^verbatim>\<open>acknowledge\<close>, \<^verbatim>\<open>alarm\<close>) and its entry point \<^verbatim>\<open>fetch\<close> are embedded
  below as functions from the storage before a call to the settlement of the method's
  promise and the storage after it.
\<close>

subsection \<open>Values\<close>

text \<open>
  What \<^verbatim>\<open>request.json()\<close> resolves to, what the storage holds and what
  \<^verbatim>\<open>Response.json\<close> serialises: JSON values. The code never computes with a number, so
  the type of numbers is left as a parameter.
\<close>

datatype 'n json =
    JNull
  | JBool bool
  | JNum 'n
  | JStr string
  | JArr "'n json list"
  | JObj "(string \<times> 'n json) list"

text \<open>The values a rejected promise carries.\<close>

datatype error =
    SyntaxError   \<comment> \<open>\<^verbatim>\<open>request.json()\<close> on a body that is not JSON\<close>
  | StorageError  \<comment> \<open>a storage call of the host that rejects\<close>

datatype 'n body = Text string | Json "'n json"

record 'n response =
  status :: nat
  body :: "'n body"

record 'n request =
  request_method :: string
  json_body :: "'n json option"  \<comment> \<open>the value \<^verbatim>\<open>request.json()\<close> resolves to; \<open>None\<close>: it rejects\<close>

subsection \<open>The host\<close>

text \<open>
  Everything one invocation takes from the runtime: the clock, the rendering of an instant
  as an ISO-8601 string, and which storage calls reject. The clock is read in milliseconds
  since the epoch; time passes (by a natural number of milliseconds) between the arrival
  of a call and each later reading.
\<close>

record host =
  arrived :: int
  date_lag :: nat
  alarm_lag :: nat
  toISOString :: "int \<Rightarrow> string"
  put_rejects :: bool
  get_rejects :: "string \<Rightarrow> bool"
  delete_rejects :: bool
  deleteAll_rejects :: bool
  setAlarm_rejects :: bool

definition new_Date :: "host \<Rightarrow> int" where
  "new_Date h = arrived h + int (date_lag h)"

definition Date_now :: "host \<Rightarrow> int" where
  "Date_now h = arrived h + int (date_lag h) + int (alarm_lag h)"

subsection \<open>The storage of one actor\<close>

record 'n storage =
  entries :: "string \<rightharpoonup> 'n json"
  scheduled_alarm :: "int option"

definition initial :: "'n storage" where
  "initial = \<lparr>entries = Map.empty, scheduled_alarm = None\<rparr>"

fun put_all :: "(string \<times> 'n json) list \<Rightarrow> (string \<rightharpoonup> 'n json) \<Rightarrow> (string \<rightharpoonup> 'n json)" where
  "put_all [] m = m"
| "put_all ((k, v) # kvs) m = put_all kvs (m(k \<mapsto> v))"

fun delete_all :: "string list \<Rightarrow> (string \<rightharpoonup> 'n json) \<Rightarrow> (string \<rightharpoonup> 'n json)" where
  "delete_all [] m = m"
| "delete_all (k # ks) m = delete_all ks (m(k := None))"

text \<open>A storage call that rejects leaves the storage as it was.\<close>

definition storage_put :: "host \<Rightarrow> (string \<times> 'n json) list \<Rightarrow> 'n storage \<Rightarrow> error + 'n storage" where
  "storage_put h kvs s =
     (if put_rejects h then Inl StorageError
      else Inr (s\<lparr>entries := put_all kvs (entries s)\<rparr>))"

definition storage_get :: "host \<Rightarrow> string \<Rightarrow> 'n storage \<Rightarrow> error + 'n json option" where
  "storage_get h k s =
     (if get_rejects h k then Inl StorageError else Inr (entries s k))"

definition storage_delete :: "host \<Rightarrow> string list \<Rightarrow> 'n storage \<Rightarrow> error + 'n storage" where
  "storage_delete h ks s =
     (if delete_rejects h then Inl StorageError
      else Inr (s\<lparr>entries := delete_all ks (entries s)\<rparr>))"

definition storage_deleteAll :: "host \<Rightarrow> 'n storage \<Rightarrow> error + 'n storage" where
  "storage_deleteAll h s =
     (if deleteAll_rejects h then Inl StorageError
      else Inr (s\<lparr>entries := Map.empty\<rparr>))"

text \<open>Setting an alarm replaces the one outstanding alarm, if any.\<close>

definition storage_setAlarm :: "host \<Rightarrow> int \<Rightarrow> 'n storage \<Rightarrow> error + 'n storage" where
  "storage_setAlarm h t s =
     (if setAlarm_rejects h then Inl StorageError
      else Inr (s\<lparr>scheduled_alarm := Some t\<rparr>))"

subsection \<open>Responses\<close>

text \<open>
  \<^verbatim>\<open>Response.json(obj)\<close> serialises with \<^verbatim>\<open>JSON.stringify\<close>, which leaves out a
  property whose value is \<^verbatim>\<open>undefined\<close>; \<^verbatim>\<open>storage.get\<close> gives \<^verbatim>\<open>undefined\<close>
  for a key that has no entry.
\<close>

fun json_object :: "(string \<times> 'n json option) list \<Rightarrow> (string \<times> 'n json) list" where
  "json_object [] = []"
| "json_object ((k, None) # ps) = json_object ps"
| "json_object ((k, Some v) # ps) = (k, v) # json_object ps"

definition Response_json :: "(string \<times> 'n json option) list \<Rightarrow> nat \<Rightarrow> 'n response" where
  "Response_json obj st = \<lparr>status = st, body = Json (JObj (json_object obj))\<rparr>"

definition Response_text :: "string \<Rightarrow> nat \<Rightarrow> 'n response" where
  "Response_text txt st = \<lparr>status = st, body = Text txt\<rparr>"

subsection \<open>The methods\<close>

text \<open>
  An \<^verbatim>\<open>async\<close> method returns a promise; \<open>Inl e\<close> is the promise rejected with \<open>e\<close>,
  \<open>Inr r\<close> the promise fulfilled with \<open>r\<close>. Each \<^verbatim>\<open>await\<close> of a rejected promise
  outside a \<^verbatim>\<open>try\<close> rejects the method's own promise there; the writes made before it
  stay.
\<close>

definition store :: "'n request \<Rightarrow> host \<Rightarrow> 'n storage \<Rightarrow> (error + 'n response) \<times> 'n storage" where
  "store request h s =
     (case json_body request of
        None \<Rightarrow> (Inl SyntaxError, s)
      | Some data \<Rightarrow>
          (case storage_put h
                  [(''result'', data),
                   (''status'', JStr ''ready''),
                   (''storedAt'', JStr (toISOString h (new_Date h)))] s of
             Inl e \<Rightarrow> (Inl e, s)
           | Inr s1 \<Rightarrow>
               (let s2 = (case storage_setAlarm h (Date_now h + 24 * 60 * 60 * 1000) s1 of
                            Inl e \<Rightarrow> s1
                          | Inr s' \<Rightarrow> s')
                in (Inr (Response_text ''stored'' 201), s2))))"

definition retrieve :: "host \<Rightarrow> 'n storage \<Rightarrow> (error + 'n response) \<times> 'n storage" where
  "retrieve h s =
     (case storage_get h ''status'' s of
        Inl e \<Rightarrow> (Inl e, s)
      | Inr st \<Rightarrow>
          if st = Some (JStr ''deleted'') then
            (Inr (Response_json [(''message'', Some (JStr ''Result deleted''))] 404), s)
          else if st \<noteq> Some (JStr ''ready'') then
            (Inr (Response_json [(''status'', Some (JStr ''pending''))] 202), s)
          else
            (case storage_get h ''result'' s of
               Inl e \<Rightarrow> (Inl e, s)
             | Inr result \<Rightarrow>
                 (case storage_get h ''storedAt'' s of
                    Inl e \<Rightarrow> (Inl e, s)
                  | Inr storedAt \<Rightarrow>
                      (Inr (Response_json
                              [(''status'', Some (JStr ''ready'')),
                               (''result'', result),
                               (''storedAt'', storedAt)] 200), s))))"

definition acknowledge :: "host \<Rightarrow> 'n storage \<Rightarrow> (error + 'n response) \<times> 'n storage" where
  "acknowledge h s =
     (case storage_put h [(''status'', JStr ''deleted'')] s of
        Inl e \<Rightarrow> (Inl e, s)
      | Inr s1 \<Rightarrow>
          (case storage_delete h [''result'', ''storedAt''] s1 of
             Inl e \<Rightarrow> (Inl e, s1)
           | Inr s2 \<Rightarrow>
               (let s3 = (case storage_setAlarm h (Date_now h + 60 * 60 * 1000) s2 of
                            Inl e \<Rightarrow> s2
                          | Inr s' \<Rightarrow> s')
                in (Inr (Response_text ''deleted'' 200), s3))))"

definition alarm :: "host \<Rightarrow> 'n storage \<Rightarrow> (error + unit) \<times> 'n storage" where
  "alarm h s =
     (case storage_deleteAll h s of
        Inl e \<Rightarrow> (Inl e, s)
      | Inr s' \<Rightarrow> (Inr (), s'))"

subsection \<open>The entry point\<close>

text \<open>
  How the evaluation of a block ends: it returns a value, or it throws. The \<^verbatim>\<open>try\<close>
  block of \<^verbatim>\<open>fetch\<close> returns, in each case of the \<^verbatim>\<open>switch\<close>, the promise that the
  call of an \<^verbatim>\<open>async\<close> method gives, without awaiting it, or a response. The call of
  an \<^verbatim>\<open>async\<close> method never throws: whatever fails inside rejects the promise it
  returned. The \<^verbatim>\<open>catch\<close> clause handles what the block throws; a promise returned
  from an \<^verbatim>\<open>async\<close> function settles that function's own promise.
\<close>

datatype 'a completion = Returns 'a | Throws error

definition fetch :: "'n request \<Rightarrow> host \<Rightarrow> 'n storage \<Rightarrow> (error + 'n response) \<times> 'n storage" where
  "fetch request h s =
     (case (if request_method request = ''PUT'' then Returns (store request h s)
            else if request_method request = ''GET'' then Returns (retrieve h s)
            else if request_method request = ''DELETE'' then Returns (acknowledge h s)
            else Returns (Inr (Response_text ''Method not allowed'' 405), s)) of
        Returns promise \<Rightarrow> promise
      | Throws e \<Rightarrow> (Inr (Response_text ''Internal error'' 500), s))"

subsection \<open>Sequences of operations\<close>

text \<open>
  The actor runs one operation at a time. When the alarm's time has come the host takes the
  outstanding alarm off and calls \<^verbatim>\<open>alarm()\<close>.
\<close>

definition timer_fire :: "host \<Rightarrow> 'n storage \<Rightarrow> (error + unit) \<times> 'n storage" where
  "timer_fire h s = alarm h (s\<lparr>scheduled_alarm := None\<rparr>)"

datatype 'n event = Store "'n request" | Poll | Acknowledge | TimerFire

fun step :: "'n storage \<Rightarrow> 'n event \<times> host \<Rightarrow> 'n storage" where
  "step s (Store request, h) = snd (store request h s)"
| "step s (Poll, h) = snd (retrieve h s)"
| "step s (Acknowledge, h) = snd (acknowledge h s)"
| "step s (TimerFire, h) = snd (timer_fire h s)"

definition run :: "'n storage \<Rightarrow> ('n event \<times> host) list \<Rightarrow> 'n storage" where
  "run s evs = foldl step s evs"

text \<open>The events that write a payload, and those that can take a tombstone away.\<close>

fun is_store :: "'n event \<Rightarrow> bool" where
  "is_store (Store request) = True"
| "is_store ev = False"

fun is_timer_fire :: "'n event \<Rightarrow> bool" where
  "is_timer_fire TimerFire = True"
| "is_timer_fire ev = False"

fun is_acknowledge :: "'n event \<Rightarrow> bool" where
  "is_acknowledge Acknowledge = True"
| "is_acknowledge ev = False"

subsection \<open>The record the storage encodes\<close>

text \<open>
  The payload is the entry under \<^verbatim>\<open>result\<close>; the record is ready when the entry under
  \<^verbatim>\<open>status\<close> is the string \<^verbatim>\<open>ready\<close>. A payload that is the JSON value
  \<^verbatim>\<open>null\<close> is an entry like any other: the record has a payload when the entry
  exists.
\<close>

definition has_payload :: "'n storage \<Rightarrow> bool" where
  "has_payload s = (entries s ''result'' \<noteq> None)"

definition is_ready :: "'n storage \<Rightarrow> bool" where
  "is_ready s = (entries s ''status'' = Some (JStr ''ready''))"

definition payload_iff_ready :: "'n storage \<Rightarrow> bool" where
  "payload_iff_ready s = (has_payload s = is_ready s)"

text \<open>
  An acknowledge is cut off when its \<^verbatim>\<open>put\<close> goes through and its \<^verbatim>\<open>delete\<close>
  rejects: the tombstone is written and the payload is not yet taken away.
\<close>

fun cut_off :: "'n event \<times> host \<Rightarrow> bool" where
  "cut_off (Acknowledge, h) = (\<not> put_rejects h \<and> delete_rejects h)"
| "cut_off (ev, h) = False"

subsection \<open>A concrete host\<close>

text \<open>
  \<^verbatim>\<open>Date.prototype.toISOString\<close>: the instant as \<^verbatim>\<open>YYYY-MM-DDTHH:mm:ss.sssZ\<close> in
  UTC, the year with a sign and six digits outside 0 to 9999. The date is computed from
  the day number in the proleptic Gregorian calendar, era by era (400 years, 146097
  days), the months counted from March.
\<close>

definition digit :: "nat \<Rightarrow> char" where
  "digit n = ''0123456789'' ! (n mod 10)"

definition pad2 :: "nat \<Rightarrow> string" where
  "pad2 n = [digit (n div 10), digit n]"

definition pad3 :: "nat \<Rightarrow> string" where
  "pad3 n = digit (n div 100) # pad2 n"

definition pad4 :: "nat \<Rightarrow> string" where
  "pad4 n = digit (n div 1000) # pad3 n"

definition pad6 :: "nat \<Rightarrow> string" where
  "pad6 n = digit (n div 100000) # digit (n div 10000) # pad4 n"

definition year_string :: "int \<Rightarrow> string" where
  "year_string y =
     (if 0 \<le> y \<and> y \<le> 9999 then pad4 (nat y)
      else (if y < 0 then ''-'' else ''+'') @ pad6 (nat \<bar>y\<bar>))"

definition date_of_month :: "int \<Rightarrow> int \<Rightarrow> int \<Rightarrow> string" where
  "date_of_month y m d =
     year_string (y + (if m \<le> 2 then 1 else 0)) @ ''-'' @ pad2 (nat m) @ ''-'' @ pad2 (nat d)"

definition date_of_mp :: "int \<Rightarrow> int \<Rightarrow> int \<Rightarrow> string" where
  "date_of_mp y doy mp =
     date_of_month y (if mp < 10 then mp + 3 else mp - 9) (doy - (153 * mp + 2) div 5 + 1)"

definition date_of_doy :: "int \<Rightarrow> int \<Rightarrow> string" where
  "date_of_doy y doy = date_of_mp y doy ((5 * doy + 2) div 153)"

definition date_of_yoe :: "int \<Rightarrow> int \<Rightarrow> int \<Rightarrow> string" where
  "date_of_yoe era doe yoe =
     date_of_doy (yoe + era * 400) (doe - (365 * yoe + yoe div 4 - yoe div 100))"

definition date_of_doe :: "int \<Rightarrow> int \<Rightarrow> string" where
  "date_of_doe era doe =
     date_of_yoe era doe ((doe - doe div 1460 + doe div 36524 - doe div 146096) div 365)"

definition date_of_era :: "int \<Rightarrow> int \<Rightarrow> string" where
  "date_of_era z era = date_of_doe era (z - era * 146097)"

definition date_string :: "int \<Rightarrow> string" where
  "date_string days = date_of_era (days + 719468) ((days + 719468) div 146097)"

definition time_string :: "nat \<Rightarrow> string" where
  "time_string ms =
     pad2 (ms div 3600000) @ '':'' @ pad2 (ms div 60000 mod 60) @ '':''
     @ pad2 (ms div 1000 mod 60) @ ''.'' @ pad3 (ms mod 1000)"

definition iso8601 :: "int \<Rightarrow> string" where
  "iso8601 t =
     date_string (t div 86400000) @ ''T'' @ time_string (nat (t mod 86400000)) @ ''Z''"

text \<open>
  A host on which no call rejects and no time passes within a call, its clock at
  2026-11-02T09:30:15.250Z; and the same host with an alarm that cannot be set.
\<close>

definition quiet :: host where
  "quiet =
     \<lparr>arrived = 1793611815250, date_lag = 0, alarm_lag = 0, toISOString = iso8601,
      put_rejects = False, get_rejects = (\<lambda>k. False), delete_rejects = False,
      deleteAll_rejects = False, setAlarm_rejects = False\<rparr>"

definition no_alarm :: host where
  "no_alarm = quiet\<lparr>setAlarm_rejects := True\<rparr>"

definition no_delete :: host where
  "no_delete = quiet\<lparr>delete_rejects := True\<rparr>"

definition job_42 :: "int request" where
  "job_42 = \<lparr>request_method = ''PUT'', json_body = Some (JObj [(''foo'', JNum 1)])\<rparr>"

section \<open>Properties\<close>

subsection \<open>Evaluating the concrete host\<close>

lemmas iso8601_defs =
  iso8601_def date_string_def date_of_era_def date_of_doe_def date_of_yoe_def
  date_of_doy_def date_of_mp_def date_of_month_def year_string_def time_string_def
  pad2_def pad3_def pad4_def pad6_def digit_def

lemma iso8601_quiet: "iso8601 1793611815250 = ''2026-11-02T09:30:15.250Z''"
  by (simp add: iso8601_defs)

lemma iso8601_epoch: "iso8601 0 = ''1970-01-01T00:00:00.000Z''"
  by (simp add: iso8601_defs)

lemma iso8601_leap_day: "iso8601 951782400000 = ''2000-02-29T00:00:00.000Z''"
  by (simp add: iso8601_defs)

lemma quiet_simps [simp]:
  "arrived quiet = 1793611815250" "date_lag quiet = 0" "alarm_lag quiet = 0"
  "toISOString quiet = iso8601" "\<not> put_rejects quiet" "\<not> get_rejects quiet k"
  "\<not> delete_rejects quiet" "\<not> deleteAll_rejects quiet" "\<not> setAlarm_rejects quiet"
  by (simp_all add: quiet_def)

lemma no_alarm_simps [simp]:
  "arrived no_alarm = 1793611815250" "date_lag no_alarm = 0" "alarm_lag no_alarm = 0"
  "toISOString no_alarm = iso8601" "\<not> put_rejects no_alarm" "\<not> get_rejects no_alarm k"
  "\<not> delete_rejects no_alarm" "\<not> deleteAll_rejects no_alarm" "setAlarm_rejects no_alarm"
  by (simp_all add: no_alarm_def quiet_def)

lemma no_delete_simps [simp]:
  "arrived no_delete = 1793611815250" "date_lag no_delete = 0" "alarm_lag no_delete = 0"
  "toISOString no_delete = iso8601" "\<not> put_rejects no_delete" "\<not> get_rejects no_delete k"
  "delete_rejects no_delete" "\<not> deleteAll_rejects no_delete" "\<not> setAlarm_rejects no_delete"
  by (simp_all add: no_delete_def quiet_def)

subsection \<open>What each method writes and answers\<close>

lemma retrieve_state [simp]: "snd (retrieve h s) = s"
  by (simp add: retrieve_def storage_get_def split: sum.splits)

lemma entries_store:
  "json_body request = Some p \<Longrightarrow> \<not> put_rejects h \<Longrightarrow>
   entries (snd (store request h s)) =
     (entries s)(''result'' \<mapsto> p, ''status'' \<mapsto> JStr ''ready'',
                 ''storedAt'' \<mapsto> JStr (toISOString h (new_Date h)))"
  by (simp add: store_def storage_put_def storage_setAlarm_def Let_def)

lemma store_response:
  "json_body request = Some p \<Longrightarrow> \<not> put_rejects h \<Longrightarrow>
   fst (store request h s) = Inr \<lparr>status = 201, body = Text ''stored''\<rparr>"
  by (simp add: store_def storage_put_def Let_def Response_text_def)

lemma entries_acknowledge:
  "\<not> put_rejects h \<Longrightarrow> \<not> delete_rejects h \<Longrightarrow>
   entries (snd (acknowledge h s)) =
     (entries s)(''status'' \<mapsto> JStr ''deleted'', ''result'' := None, ''storedAt'' := None)"
  by (simp add: acknowledge_def storage_put_def storage_delete_def storage_setAlarm_def Let_def)

lemma acknowledge_response:
  "\<not> put_rejects h \<Longrightarrow> \<not> delete_rejects h \<Longrightarrow>
   fst (acknowledge h s) = Inr \<lparr>status = 200, body = Text ''deleted''\<rparr>"
  by (simp add: acknowledge_def storage_put_def storage_delete_def Let_def Response_text_def)

lemma retrieve_deleted:
  "entries s ''status'' = Some (JStr ''deleted'') \<Longrightarrow> \<not> get_rejects h ''status'' \<Longrightarrow>
   fst (retrieve h s) =
     Inr \<lparr>status = 404, body = Json (JObj [(''message'', JStr ''Result deleted'')])\<rparr>"
  by (simp add: retrieve_def storage_get_def Response_json_def)

lemma retrieve_absent:
  "entries s ''status'' = None \<Longrightarrow> \<not> get_rejects h ''status'' \<Longrightarrow>
   fst (retrieve h s) =
     Inr \<lparr>status = 202, body = Json (JObj [(''status'', JStr ''pending'')])\<rparr>"
  by (simp add: retrieve_def storage_get_def Response_json_def)

lemma retrieve_ready:
  "entries s ''status'' = Some (JStr ''ready'') \<Longrightarrow> entries s ''result'' = Some p \<Longrightarrow>
   entries s ''storedAt'' = Some t \<Longrightarrow>
   \<not> get_rejects h ''status'' \<Longrightarrow> \<not> get_rejects h ''result'' \<Longrightarrow>
   \<not> get_rejects h ''storedAt'' \<Longrightarrow>
   fst (retrieve h s) =
     Inr \<lparr>status = 200,
          body = Json (JObj [(''status'', JStr ''ready''), (''result'', p), (''storedAt'', t)])\<rparr>"
  by (simp add: retrieve_def storage_get_def Response_json_def)

subsection \<open>Store, then poll\<close>

text \<open>
  C1. For every payload \<open>p\<close> and every storage \<open>s\<close> before the call (absent, ready,
  deleted or anything else), a \<^verbatim>\<open>store\<close> whose body parses to \<open>p\<close> and whose
  \<^verbatim>\<open>put\<close> does not reject answers 201 \<^verbatim>\<open>stored\<close>, and a poll right after it
  answers 200 with status \<^verbatim>\<open>ready\<close>, the result \<open>p\<close> and, as \<^verbatim>\<open>storedAt\<close>, the
  rendering of the instant the store call read from the clock, which is no earlier than
  the arrival of the call. Whether the alarm could be set plays no part.
\<close>

theorem store_then_poll_ready:
  assumes "json_body request = Some p" and "\<not> put_rejects h"
    and "\<not> get_rejects hp ''status''" and "\<not> get_rejects hp ''result''"
    and "\<not> get_rejects hp ''storedAt''"
  shows "fst (store request h s) = Inr \<lparr>status = 201, body = Text ''stored''\<rparr> \<and>
         fst (retrieve hp (snd (store request h s))) =
           Inr \<lparr>status = 200,
                body = Json (JObj [(''status'', JStr ''ready''), (''result'', p),
                                   (''storedAt'', JStr (toISOString h (new_Date h)))])\<rparr> \<and>
         arrived h \<le> new_Date h"
proof -
  have answer: "fst (store request h s) = Inr \<lparr>status = 201, body = Text ''stored''\<rparr>"
    using assms(1,2) by (rule store_response)
  have poll: "fst (retrieve hp (snd (store request h s))) =
           Inr \<lparr>status = 200,
                body = Json (JObj [(''status'', JStr ''ready''), (''result'', p),
                                   (''storedAt'', JStr (toISOString h (new_Date h)))])\<rparr>"
    using assms(3-5) entries_store [OF assms(1,2), of s]
    by (simp add: retrieve_ready)
  have "arrived h \<le> new_Date h"
    by (simp add: new_Date_def)
  with answer poll show ?thesis by simp
qed

theorem store_then_poll_ready_witness:
  "fst (retrieve quiet (snd (store job_42 quiet initial))) =
     Inr \<lparr>status = 200,
          body = Json (JObj [(''status'', JStr ''ready''),
                             (''result'', JObj [(''foo'', JNum 1)]),
                             (''storedAt'', JStr ''2026-11-02T09:30:15.250Z'')])\<rparr>"
  using store_then_poll_ready [of job_42 "JObj [(''foo'', JNum 1)]" quiet quiet initial]
  by (simp add: job_42_def new_Date_def iso8601_quiet)

subsection \<open>Errors at the entry point\<close>

text \<open>
  C2. The claim is that \<^verbatim>\<open>fetch\<close> answers 500 when the operation it invokes fails.
  The code does not: the promise of the operation is returned from the \<^verbatim>\<open>try\<close> block
  without being awaited, so its rejection is the rejection of \<^verbatim>\<open>fetch\<close>. A
  \<^verbatim>\<open>PUT\<close> whose body is not JSON, a \<^verbatim>\<open>GET\<close> whose storage read rejects and a
  \<^verbatim>\<open>DELETE\<close> whose storage write rejects all reject \<^verbatim>\<open>fetch\<close> with the error of
  the operation, and no request at all is answered with the 500 response of the
  \<^verbatim>\<open>catch\<close> clause.
\<close>

theorem fetch_lets_rejection_escape:
  "fetch \<lparr>request_method = ''PUT'', json_body = None\<rparr> h s = (Inl SyntaxError, s) \<and>
   fetch \<lparr>request_method = ''GET'', json_body = b\<rparr> (h\<lparr>get_rejects := \<lambda>k. True\<rparr>) s =
     (Inl StorageError, s) \<and>
   fetch \<lparr>request_method = ''DELETE'', json_body = b\<rparr> (h\<lparr>put_rejects := True\<rparr>) s =
     (Inl StorageError, s) \<and>
   fst (fetch request h s) \<noteq> Inr \<lparr>status = 500, body = Text ''Internal error''\<rparr>"
proof -
  have put: "fetch \<lparr>request_method = ''PUT'', json_body = None\<rparr> h s = (Inl SyntaxError, s)"
    by (simp add: fetch_def store_def)
  have get: "fetch \<lparr>request_method = ''GET'', json_body = b\<rparr> (h\<lparr>get_rejects := \<lambda>k. True\<rparr>) s =
     (Inl StorageError, s)"
    by (simp add: fetch_def retrieve_def storage_get_def)
  have del: "fetch \<lparr>request_method = ''DELETE'', json_body = b\<rparr> (h\<lparr>put_rejects := True\<rparr>) s =
     (Inl StorageError, s)"
    by (simp add: fetch_def acknowledge_def storage_put_def)
  have never: "fst (fetch request h s) \<noteq> Inr \<lparr>status = 500, body = Text ''Internal error''\<rparr>"
    by (simp add: fetch_def store_def retrieve_def acknowledge_def storage_put_def
          storage_get_def storage_delete_def Let_def Response_text_def Response_json_def
        split: option.splits sum.splits)
  from put get del never show ?thesis by simp
qed

subsection \<open>The tombstone\<close>

lemma acknowledge_status_deleted:
  "entries s ''status'' = Some (JStr ''deleted'') \<Longrightarrow>
   entries (snd (acknowledge h s)) ''status'' = Some (JStr ''deleted'')"
  by (simp add: acknowledge_def storage_put_def storage_delete_def storage_setAlarm_def Let_def)

lemma step_keeps_deleted:
  assumes "entries s ''status'' = Some (JStr ''deleted'')"
    and "\<not> is_store (fst ev)" and "\<not> is_timer_fire (fst ev)"
  shows "entries (step s ev) ''status'' = Some (JStr ''deleted'')"
proof (cases ev)
  case (Pair e h)
  with assms show ?thesis
    by (cases e) (simp_all add: acknowledge_status_deleted)
qed

lemma run_keeps_deleted:
  "entries s ''status'' = Some (JStr ''deleted'') \<Longrightarrow>
   \<forall>ev \<in> set evs. \<not> is_store (fst ev) \<and> \<not> is_timer_fire (fst ev) \<Longrightarrow>
   entries (run s evs) ''status'' = Some (JStr ''deleted'')"
  unfolding run_def
  by (induction evs arbitrary: s) (simp_all add: step_keeps_deleted)

text \<open>
  C3. After an \<^verbatim>\<open>acknowledge\<close> that completes (on a ready record or on any other),
  whatever polls and further acknowledges follow, under whatever host, as long as no
  store and no timer fire intervenes, a poll answers 404 with the message
  \<^verbatim>\<open>Result deleted\<close>: not ready, not pending.
\<close>

theorem tombstone_visible_until_purge:
  assumes "\<not> put_rejects h" and "\<not> delete_rejects h"
    and "\<forall>ev \<in> set evs. \<not> is_store (fst ev) \<and> \<not> is_timer_fire (fst ev)"
    and "\<not> get_rejects hp ''status''"
  shows "fst (acknowledge h s) = Inr \<lparr>status = 200, body = Text ''deleted''\<rparr> \<and>
         fst (retrieve hp (run (snd (acknowledge h s)) evs)) =
           Inr \<lparr>status = 404, body = Json (JObj [(''message'', JStr ''Result deleted'')])\<rparr>"
proof -
  have "entries (snd (acknowledge h s)) ''status'' = Some (JStr ''deleted'')"
    using assms(1,2) by (simp add: entries_acknowledge)
  then have "entries (run (snd (acknowledge h s)) evs) ''status'' = Some (JStr ''deleted'')"
    using assms(3) by (rule run_keeps_deleted)
  then show ?thesis
    using assms(1,2,4) by (simp add: retrieve_deleted acknowledge_response)
qed

theorem tombstone_visible_until_purge_witness:
  "fst (acknowledge quiet (snd (store job_42 quiet initial))) =
     Inr \<lparr>status = 200, body = Text ''deleted''\<rparr> \<and>
   fst (retrieve quiet
         (run (snd (acknowledge quiet (snd (store job_42 quiet initial))))
            [(Poll, quiet), (Acknowledge, no_alarm), (Poll, quiet)])) =
     Inr \<lparr>status = 404, body = Json (JObj [(''message'', JStr ''Result deleted'')])\<rparr>"
  using tombstone_visible_until_purge
    [of quiet "[(Poll, quiet), (Acknowledge, no_alarm), (Poll, quiet)]" quiet
        "snd (store job_42 quiet initial)"]
  by simp

subsection \<open>A key that was never stored\<close>

text \<open>
  C4, as stated, fails: the claim is that a key on which \<^verbatim>\<open>store\<close> was never called
  polls as pending whatever else has run on it, an acknowledge included. An acknowledge
  writes the tombstone whatever the record holds, so on a fresh actor an acknowledge
  followed by a poll answers 404, not 202.
\<close>

theorem acknowledge_before_store_counterexample:
  "fst (retrieve quiet (run (initial :: int storage) [(Acknowledge, quiet)])) =
     Inr \<lparr>status = 404, body = Json (JObj [(''message'', JStr ''Result deleted'')])\<rparr> \<and>
   fst (retrieve quiet (run (initial :: int storage) [(Acknowledge, quiet)])) \<noteq>
     Inr \<lparr>status = 202, body = Json (JObj [(''status'', JStr ''pending'')])\<rparr>"
  by (simp add: run_def initial_def entries_acknowledge retrieve_deleted)

lemma step_never_stored:
  assumes "entries s ''status'' = None \<or> entries s ''status'' = Some (JStr ''deleted'')"
    and "\<not> is_store (fst ev)"
  shows "entries (step s ev) ''status'' = None \<or>
         entries (step s ev) ''status'' = Some (JStr ''deleted'')"
proof (cases ev)
  case (Pair e h)
  with assms show ?thesis
    by (cases e)
       (auto simp add: acknowledge_def timer_fire_def alarm_def storage_put_def
          storage_delete_def storage_deleteAll_def storage_setAlarm_def Let_def)
qed

lemma run_never_stored:
  "entries s ''status'' = None \<or> entries s ''status'' = Some (JStr ''deleted'') \<Longrightarrow>
   \<forall>ev \<in> set evs. \<not> is_store (fst ev) \<Longrightarrow>
   entries (run s evs) ''status'' = None \<or>
   entries (run s evs) ''status'' = Some (JStr ''deleted'')"
  unfolding run_def
proof (induction evs arbitrary: s)
  case Nil
  then show ?case by simp
next
  case (Cons ev evs)
  have "entries (step s ev) ''status'' = None \<or>
        entries (step s ev) ''status'' = Some (JStr ''deleted'')"
    using Cons.prems by (simp add: step_never_stored)
  then show ?case
    using Cons.IH [of "step s ev"] Cons.prems(2) by simp
qed

lemma step_untouched:
  assumes "entries s ''status'' = None"
    and "\<not> is_store (fst ev)" and "\<not> is_acknowledge (fst ev)"
  shows "entries (step s ev) ''status'' = None"
proof (cases ev)
  case (Pair e h)
  with assms show ?thesis
    by (cases e) (auto simp add: timer_fire_def alarm_def storage_deleteAll_def)
qed

lemma run_untouched:
  "entries s ''status'' = None \<Longrightarrow>
   \<forall>ev \<in> set evs. \<not> is_store (fst ev) \<and> \<not> is_acknowledge (fst ev) \<Longrightarrow>
   entries (run s evs) ''status'' = None"
  unfolding run_def
  by (induction evs arbitrary: s) (simp_all add: step_untouched)

text \<open>
  C4, amended. On a key on which \<^verbatim>\<open>store\<close> was never called, whatever polls,
  acknowledges and timer fires have run, a poll never answers ready: it answers pending
  (202) or not found (404), and it answers pending whenever no acknowledge has run on the
  key either.
\<close>

theorem never_stored_never_ready:
  assumes "\<forall>ev \<in> set evs. \<not> is_store (fst ev)"
    and "\<not> get_rejects hp ''status''"
  shows "(fst (retrieve hp (run initial evs)) =
            Inr \<lparr>status = 202, body = Json (JObj [(''status'', JStr ''pending'')])\<rparr> \<or>
          fst (retrieve hp (run initial evs)) =
            Inr \<lparr>status = 404, body = Json (JObj [(''message'', JStr ''Result deleted'')])\<rparr>) \<and>
         ((\<forall>ev \<in> set evs. \<not> is_acknowledge (fst ev)) \<longrightarrow>
          fst (retrieve hp (run initial evs)) =
            Inr \<lparr>status = 202, body = Json (JObj [(''status'', JStr ''pending'')])\<rparr>)"
proof -
  have start: "entries (initial :: 'a storage) ''status'' = None"
    by (simp add: initial_def)
  then have "entries (run (initial :: 'a storage) evs) ''status'' = None \<or>
        entries (run (initial :: 'a storage) evs) ''status'' = Some (JStr ''deleted'')"
    using assms(1) by (simp add: run_never_stored)
  then have first: "fst (retrieve hp (run (initial :: 'a storage) evs)) =
            Inr \<lparr>status = 202, body = Json (JObj [(''status'', JStr ''pending'')])\<rparr> \<or>
          fst (retrieve hp (run (initial :: 'a storage) evs)) =
            Inr \<lparr>status = 404, body = Json (JObj [(''message'', JStr ''Result deleted'')])\<rparr>"
    using assms(2) by (auto simp add: retrieve_absent retrieve_deleted)
  have second: "fst (retrieve hp (run (initial :: 'a storage) evs)) =
            Inr \<lparr>status = 202, body = Json (JObj [(''status'', JStr ''pending'')])\<rparr>"
    if "\<forall>ev \<in> set evs. \<not> is_acknowledge (fst ev)"
  proof -
    have "entries (run (initial :: 'a storage) evs) ''status'' = None"
      using start assms(1) that by (simp add: run_untouched)
    then show ?thesis using assms(2) by (simp add: retrieve_absent)
  qed
  from first second show ?thesis by blast
qed

theorem never_stored_never_ready_witness:
  "fst (retrieve quiet
         (run (initial :: int storage) [(Poll, quiet), (TimerFire, quiet), (Poll, quiet)])) =
     Inr \<lparr>status = 202, body = Json (JObj [(''status'', JStr ''pending'')])\<rparr>"
  using never_stored_never_ready
    [of "[(Poll, quiet), (TimerFire, quiet), (Poll, quiet)] :: (int event \<times> host) list" quiet]
  by simp

subsection \<open>The alarm\<close>

text \<open>
  C5. From every storage \<open>s\<close>, an \<^verbatim>\<open>alarm()\<close> whose \<^verbatim>\<open>deleteAll\<close> does not reject
  leaves no entry at all; after the timer has fired the actor is in its initial state, and
  a poll answers pending (202), the very answer a poll gets on an actor that was never
  written to.
\<close>

theorem alarm_purges_every_field:
  assumes "\<not> deleteAll_rejects h" and "\<not> get_rejects hp ''status''"
  shows "fst (alarm h s) = Inr () \<and>
         entries (snd (alarm h s)) = Map.empty \<and>
         snd (timer_fire h s) = initial \<and>
         fst (retrieve hp (snd (timer_fire h s))) =
           Inr \<lparr>status = 202, body = Json (JObj [(''status'', JStr ''pending'')])\<rparr> \<and>
         fst (retrieve hp (snd (timer_fire h s))) = fst (retrieve hp initial)"
proof -
  have wiped: "fst (alarm h s) = Inr () \<and> entries (snd (alarm h s)) = Map.empty"
    using assms(1) by (simp add: alarm_def storage_deleteAll_def)
  have restored: "snd (timer_fire h s) = initial"
    using assms(1) by (simp add: timer_fire_def alarm_def storage_deleteAll_def initial_def)
  have "fst (retrieve hp (initial :: 'a storage)) =
          Inr \<lparr>status = 202, body = Json (JObj [(''status'', JStr ''pending'')])\<rparr>"
    using assms(2) by (simp add: retrieve_absent initial_def)
  with wiped restored show ?thesis by simp
qed

theorem alarm_purges_every_field_witness:
  "snd (timer_fire quiet (snd (store job_42 quiet initial))) = initial \<and>
   snd (timer_fire quiet (snd (acknowledge quiet (snd (store job_42 quiet initial))))) = initial \<and>
   fst (retrieve quiet (snd (timer_fire quiet (snd (store job_42 quiet initial))))) =
     Inr \<lparr>status = 202, body = Json (JObj [(''status'', JStr ''pending'')])\<rparr>"
  using alarm_purges_every_field [of quiet quiet "snd (store job_42 quiet initial)"]
    alarm_purges_every_field
      [of quiet quiet "snd (acknowledge quiet (snd (store job_42 quiet initial)))"]
  by (simp add: retrieve_absent initial_def)

subsection \<open>Acknowledge\<close>

text \<open>
  C6. From every storage, two acknowledges in a row that both complete give the same
  answer, 200 \<^verbatim>\<open>deleted\<close>, and no error; the entries after the second are the entries
  after the first (status \<^verbatim>\<open>deleted\<close>, no result, no storedAt), and the alarm is the
  one the second call set, one hour after its clock reading, or the earlier alarm when
  setting it failed.
\<close>

theorem acknowledge_idempotent:
  assumes "\<not> put_rejects h1" and "\<not> delete_rejects h1"
    and "\<not> put_rejects h2" and "\<not> delete_rejects h2"
  shows "fst (acknowledge h1 s) = Inr \<lparr>status = 200, body = Text ''deleted''\<rparr> \<and>
         fst (acknowledge h2 (snd (acknowledge h1 s))) =
           Inr \<lparr>status = 200, body = Text ''deleted''\<rparr> \<and>
         entries (snd (acknowledge h2 (snd (acknowledge h1 s)))) =
           entries (snd (acknowledge h1 s)) \<and>
         entries (snd (acknowledge h1 s)) ''status'' = Some (JStr ''deleted'') \<and>
         entries (snd (acknowledge h1 s)) ''result'' = None \<and>
         entries (snd (acknowledge h1 s)) ''storedAt'' = None \<and>
         scheduled_alarm (snd (acknowledge h2 (snd (acknowledge h1 s)))) =
           (if setAlarm_rejects h2 then scheduled_alarm (snd (acknowledge h1 s))
            else Some (Date_now h2 + 3600000))"
proof -
  have same: "entries (snd (acknowledge h2 (snd (acknowledge h1 s)))) =
           entries (snd (acknowledge h1 s))"
    using assms by (simp add: entries_acknowledge fun_eq_iff)
  have timer: "scheduled_alarm (snd (acknowledge h2 (snd (acknowledge h1 s)))) =
           (if setAlarm_rejects h2 then scheduled_alarm (snd (acknowledge h1 s))
            else Some (Date_now h2 + 3600000))"
    using assms(3,4)
    by (simp add: acknowledge_def [of h2] storage_put_def storage_delete_def
          storage_setAlarm_def Let_def)
  from same timer show ?thesis
    using assms by (simp add: acknowledge_response entries_acknowledge)
qed

theorem acknowledge_idempotent_witness:
  "fst (acknowledge quiet (snd (store job_42 quiet initial))) =
     Inr \<lparr>status = 200, body = Text ''deleted''\<rparr> \<and>
   fst (acknowledge no_alarm (snd (acknowledge quiet (snd (store job_42 quiet initial))))) =
     Inr \<lparr>status = 200, body = Text ''deleted''\<rparr> \<and>
   entries (snd (acknowledge no_alarm (snd (acknowledge quiet (snd (store job_42 quiet initial)))))) =
     entries (snd (acknowledge quiet (snd (store job_42 quiet initial))))"
  using acknowledge_idempotent [of quiet no_alarm "snd (store job_42 quiet initial)"]
  by simp

text \<open>
  C10. The answer of an acknowledge does not depend on the storage it runs on: two
  acknowledges under hosts that reject the same storage writes settle alike whatever the
  two storages hold, and an acknowledge that completes answers exactly 200
  \<^verbatim>\<open>deleted\<close>, on a ready record, on a tombstone and on an absent record alike.
\<close>

theorem acknowledge_response_hides_state:
  "(put_rejects h = put_rejects h' \<and> delete_rejects h = delete_rejects h' \<longrightarrow>
      fst (acknowledge h s) = fst (acknowledge h' s')) \<and>
   (\<not> put_rejects h \<and> \<not> delete_rejects h \<longrightarrow>
      fst (acknowledge h s) = Inr \<lparr>status = 200, body = Text ''deleted''\<rparr>)"
proof -
  have settles: "fst (acknowledge h s) =
      (if put_rejects h \<or> delete_rejects h then Inl StorageError
       else Inr \<lparr>status = 200, body = Text ''deleted''\<rparr>)" for h and s :: "'a storage"
    by (simp add: acknowledge_def storage_put_def storage_delete_def Let_def Response_text_def)
  show ?thesis
    by (simp add: settles [of h s] settles [of h' s'])
qed

theorem acknowledge_response_hides_state_witness:
  "fst (acknowledge quiet (snd (store job_42 quiet initial))) =
     fst (acknowledge quiet (initial :: int storage)) \<and>
   fst (acknowledge quiet (snd (acknowledge quiet (snd (store job_42 quiet initial))))) =
     fst (acknowledge quiet (initial :: int storage)) \<and>
   fst (acknowledge quiet (initial :: int storage)) =
     Inr \<lparr>status = 200, body = Text ''deleted''\<rparr>"
  using acknowledge_response_hides_state
      [of quiet quiet "snd (store job_42 quiet initial)" "initial :: int storage"]
    acknowledge_response_hides_state
      [of quiet quiet "snd (acknowledge quiet (snd (store job_42 quiet initial)))"
          "initial :: int storage"]
  by (simp add: acknowledge_response)

subsection \<open>An alarm that cannot be set\<close>

text \<open>
  C7. When \<^verbatim>\<open>setAlarm\<close> rejects inside \<^verbatim>\<open>store\<close>, the store still answers 201
  \<^verbatim>\<open>stored\<close>, the record is ready, the alarm is the one that was there before, and the
  next poll answers 200 with the payload just written. When it rejects inside
  \<^verbatim>\<open>acknowledge\<close>, the acknowledge still answers 200 \<^verbatim>\<open>deleted\<close>, the alarm is the
  one that was there before, and the next poll answers 404.
\<close>

theorem alarm_failure_is_swallowed:
  assumes "json_body request = Some p" and "\<not> put_rejects h" and "setAlarm_rejects h"
    and "\<not> put_rejects ha" and "\<not> delete_rejects ha" and "setAlarm_rejects ha"
    and "\<not> get_rejects hp ''status''" and "\<not> get_rejects hp ''result''"
    and "\<not> get_rejects hp ''storedAt''"
  shows "fst (store request h s) = Inr \<lparr>status = 201, body = Text ''stored''\<rparr> \<and>
         is_ready (snd (store request h s)) \<and>
         scheduled_alarm (snd (store request h s)) = scheduled_alarm s \<and>
         fst (retrieve hp (snd (store request h s))) =
           Inr \<lparr>status = 200,
                body = Json (JObj [(''status'', JStr ''ready''), (''result'', p),
                                   (''storedAt'', JStr (toISOString h (new_Date h)))])\<rparr> \<and>
         fst (acknowledge ha s) = Inr \<lparr>status = 200, body = Text ''deleted''\<rparr> \<and>
         scheduled_alarm (snd (acknowledge ha s)) = scheduled_alarm s \<and>
         fst (retrieve hp (snd (acknowledge ha s))) =
           Inr \<lparr>status = 404, body = Json (JObj [(''message'', JStr ''Result deleted'')])\<rparr>"
proof -
  have alarm_store: "scheduled_alarm (snd (store request h s)) = scheduled_alarm s"
    using assms(1-3) by (simp add: store_def storage_put_def storage_setAlarm_def Let_def)
  have alarm_ack: "scheduled_alarm (snd (acknowledge ha s)) = scheduled_alarm s"
    using assms(4-6)
    by (simp add: acknowledge_def storage_put_def storage_delete_def storage_setAlarm_def Let_def)
  have poll_store: "fst (retrieve hp (snd (store request h s))) =
           Inr \<lparr>status = 200,
                body = Json (JObj [(''status'', JStr ''ready''), (''result'', p),
                                   (''storedAt'', JStr (toISOString h (new_Date h)))])\<rparr>"
    using assms(1,2,7-9) by (simp add: retrieve_ready entries_store)
  have poll_ack: "fst (retrieve hp (snd (acknowledge ha s))) =
           Inr \<lparr>status = 404, body = Json (JObj [(''message'', JStr ''Result deleted'')])\<rparr>"
    using assms(4,5,7) by (simp add: retrieve_deleted entries_acknowledge)
  have ready: "is_ready (snd (store request h s))"
    using assms(1,2) by (simp add: is_ready_def entries_store)
  from alarm_store alarm_ack poll_store poll_ack ready show ?thesis
    using assms(1,2,4,5) by (simp add: store_response acknowledge_response)
qed

theorem alarm_failure_is_swallowed_witness:
  "fst (store job_42 no_alarm initial) = Inr \<lparr>status = 201, body = Text ''stored''\<rparr> \<and>
   scheduled_alarm (snd (store job_42 no_alarm initial)) = None \<and>
   fst (retrieve quiet (snd (store job_42 no_alarm initial))) =
     Inr \<lparr>status = 200,
          body = Json (JObj [(''status'', JStr ''ready''),
                             (''result'', JObj [(''foo'', JNum 1)]),
                             (''storedAt'', JStr ''2026-11-02T09:30:15.250Z'')])\<rparr> \<and>
   fst (acknowledge no_alarm (initial :: int storage)) =
     Inr \<lparr>status = 200, body = Text ''deleted''\<rparr>"
  using alarm_failure_is_swallowed
    [of job_42 "JObj [(''foo'', JNum 1)]" no_alarm no_alarm quiet initial]
  by (simp add: job_42_def new_Date_def iso8601_quiet initial_def)

subsection \<open>Polling\<close>

text \<open>
  C8. A poll returns the storage it was given, entries and alarm, whether it answers or
  rejects; and a second poll on that storage, under a host whose reads reject exactly when
  those of the first did, settles as the first did.
\<close>

theorem poll_does_not_mutate:
  "snd (retrieve h s) = s \<and>
   (get_rejects h' = get_rejects h \<longrightarrow>
    fst (retrieve h' (snd (retrieve h s))) = fst (retrieve h s))"
proof -
  have unchanged: "snd (retrieve h s) = s"
    by (rule retrieve_state)
  have "fst (retrieve h' s) = fst (retrieve h s)" if "get_rejects h' = get_rejects h"
    using that by (simp add: retrieve_def storage_get_def)
  with unchanged show ?thesis by simp
qed

theorem poll_does_not_mutate_witness:
  "snd (retrieve quiet (snd (store job_42 quiet initial))) = snd (store job_42 quiet initial) \<and>
   fst (retrieve no_alarm (snd (retrieve quiet (snd (store job_42 quiet initial))))) =
     fst (retrieve quiet (snd (store job_42 quiet initial)))"
  using poll_does_not_mutate [of quiet "snd (store job_42 quiet initial)" no_alarm]
  by (simp add: fun_eq_iff)

subsection \<open>Payload and status\<close>

text \<open>
  C9, as stated, fails: the claim is that in every state reachable by stores, polls,
  acknowledges and timer fires the record has a payload exactly when its status is
  \<^verbatim>\<open>ready\<close>. An acknowledge writes the tombstone and takes the payload away in two
  storage calls; when the second rejects after the first went through, the record is
  \<^verbatim>\<open>deleted\<close> and still holds the payload, here the object stored by the store before
  it.
\<close>

theorem interrupted_acknowledge_counterexample:
  "has_payload (run initial [(Store job_42, quiet), (Acknowledge, no_delete)]) \<and>
   \<not> is_ready (run initial [(Store job_42, quiet), (Acknowledge, no_delete)]) \<and>
   entries (run initial [(Store job_42, quiet), (Acknowledge, no_delete)]) ''result'' =
     Some (JObj [(''foo'', JNum 1)]) \<and>
   entries (run initial [(Store job_42, quiet), (Acknowledge, no_delete)]) ''status'' =
     Some (JStr ''deleted'') \<and>
   fst (acknowledge no_delete (snd (store job_42 quiet initial))) = Inl StorageError"
  by (simp add: run_def has_payload_def is_ready_def acknowledge_def storage_put_def
        storage_delete_def entries_store job_42_def)

lemma step_payload_iff_ready:
  assumes "payload_iff_ready s" and "\<not> cut_off ev"
  shows "payload_iff_ready (step s ev)"
proof (cases ev)
  case (Pair e h)
  show ?thesis
  proof (cases e)
    case (Store request)
    with Pair assms(1) show ?thesis
      by (simp add: payload_iff_ready_def has_payload_def is_ready_def store_def
            storage_put_def storage_setAlarm_def Let_def split: option.splits)
  next
    case Poll
    with Pair assms(1) show ?thesis by simp
  next
    case Acknowledge
    with Pair assms show ?thesis
      by (auto simp add: payload_iff_ready_def has_payload_def is_ready_def acknowledge_def
            storage_put_def storage_delete_def storage_setAlarm_def Let_def)
  next
    case TimerFire
    with Pair assms(1) show ?thesis
      by (simp add: payload_iff_ready_def has_payload_def is_ready_def timer_fire_def
            alarm_def storage_deleteAll_def)
  qed
qed

lemma run_payload_iff_ready:
  "payload_iff_ready s \<Longrightarrow> \<forall>ev \<in> set evs. \<not> cut_off ev \<Longrightarrow>
   payload_iff_ready (run s evs)"
  unfolding run_def
  by (induction evs arbitrary: s) (simp_all add: step_payload_iff_ready)

lemma acknowledge_clears_payload:
  "\<not> put_rejects h \<Longrightarrow> \<not> delete_rejects h \<Longrightarrow>
   \<not> has_payload (snd (acknowledge h s)) \<and> \<not> is_ready (snd (acknowledge h s))"
  by (simp add: has_payload_def is_ready_def entries_acknowledge)

lemma timer_fire_clears_payload:
  "\<not> deleteAll_rejects h \<Longrightarrow>
   \<not> has_payload (snd (timer_fire h s)) \<and> \<not> is_ready (snd (timer_fire h s))"
  by (simp add: has_payload_def is_ready_def timer_fire_def alarm_def storage_deleteAll_def)

lemma store_sets_payload:
  "json_body request = Some p \<Longrightarrow> \<not> put_rejects h \<Longrightarrow>
   entries (snd (store request h s)) ''result'' = Some p \<and>
   has_payload (snd (store request h s)) \<and> is_ready (snd (store request h s))"
  by (simp add: has_payload_def is_ready_def entries_store)

text \<open>
  C9, amended. In every state reached from the initial one by stores, polls, acknowledges
  and timer fires, under whatever hosts, in which no acknowledge was cut off between its
  two writes, the record has a payload exactly when its status is \<^verbatim>\<open>ready\<close>. In
  such a state, after an acknowledge that completes and after a timer fire that completes
  the record has no payload and is not ready, and after a store that completes the record
  holds the payload just written and is ready. A payload that is the JSON value
  \<^verbatim>\<open>null\<close> counts as a payload. Stores, polls and timer fires may fail in any way,
  and so may an acknowledge whose \<^verbatim>\<open>put\<close> rejects.
\<close>

theorem payload_iff_ready_unless_cut_off:
  assumes "\<forall>ev \<in> set evs. \<not> cut_off ev"
  shows "has_payload (run initial evs) = is_ready (run initial evs) \<and>
         (\<not> put_rejects h \<and> \<not> delete_rejects h \<longrightarrow>
            \<not> has_payload (snd (acknowledge h (run initial evs))) \<and>
            \<not> is_ready (snd (acknowledge h (run initial evs)))) \<and>
         (\<not> deleteAll_rejects h \<longrightarrow>
            \<not> has_payload (snd (timer_fire h (run initial evs))) \<and>
            \<not> is_ready (snd (timer_fire h (run initial evs)))) \<and>
         (json_body request = Some p \<and> \<not> put_rejects h \<longrightarrow>
            entries (snd (store request h (run initial evs))) ''result'' = Some p \<and>
            has_payload (snd (store request h (run initial evs))) \<and>
            is_ready (snd (store request h (run initial evs))))"
proof -
  have "payload_iff_ready (initial :: 'a storage)"
    by (simp add: payload_iff_ready_def has_payload_def is_ready_def initial_def)
  then have "payload_iff_ready (run (initial :: 'a storage) evs)"
    using assms by (rule run_payload_iff_ready)
  then have invariant: "has_payload (run (initial :: 'a storage) evs) = is_ready (run initial evs)"
    by (simp add: payload_iff_ready_def)
  from invariant
    acknowledge_clears_payload [of h "run initial evs"]
    timer_fire_clears_payload [of h "run initial evs"]
    store_sets_payload [of request p h "run initial evs"]
  show ?thesis by blast
qed

theorem payload_iff_ready_unless_cut_off_witness:
  "has_payload (run initial [(Store job_42, quiet), (Poll, no_delete)]) \<and>
   is_ready (run initial [(Store job_42, quiet), (Poll, no_delete)]) \<and>
   \<not> has_payload (snd (timer_fire quiet (run initial [(Store job_42, quiet), (Poll, no_delete)]))) \<and>
   \<not> is_ready (snd (timer_fire quiet (run initial [(Store job_42, quiet), (Poll, no_delete)]))) \<and>
   \<not> has_payload (snd (acknowledge quiet (run initial [(Store job_42, quiet), (Poll, no_delete)]))) \<and>
   \<not> is_ready (snd (acknowledge quiet (run initial [(Store job_42, quiet), (Poll, no_delete)]))) \<and>
   has_payload
     (snd (store job_42 quiet
        (run initial [(Store job_42, quiet), (TimerFire, quiet), (Acknowledge, no_alarm)]))) \<and>
   \<not> has_payload (run initial [(Store job_42, quiet), (TimerFire, quiet)])"
  using payload_iff_ready_unless_cut_off
      [of "[(Store job_42, quiet), (Poll, no_delete)]" quiet job_42 "JObj [(''foo'', JNum 1)]"]
    payload_iff_ready_unless_cut_off
      [of "[(Store job_42, quiet), (TimerFire, quiet), (Acknowledge, no_alarm)]" quiet job_42
          "JObj [(''foo'', JNum 1)]"]
    payload_iff_ready_unless_cut_off
      [of "[(Store job_42, quiet), (TimerFire, quiet)]" quiet job_42 "JObj [(''foo'', JNum 1)]"]
  by (simp add: run_def job_42_def is_ready_def has_payload_def entries_store
        timer_fire_def alarm_def storage_deleteAll_def)

text \<open>
  A body that is the JSON value \<^verbatim>\<open>null\<close> is stored like any other payload: the record
  is ready and its result entry exists, holding \<^verbatim>\<open>null\<close>.
\<close>

lemma null_payload_is_a_payload:
  "is_ready (snd (store \<lparr>request_method = ''PUT'', json_body = Some JNull\<rparr> quiet s)) \<and>
   has_payload (snd (store \<lparr>request_method = ''PUT'', json_body = Some JNull\<rparr> quiet s)) \<and>
   entries (snd (store \<lparr>request_method = ''PUT'', json_body = Some JNull\<rparr> quiet s)) ''result'' =
     Some JNull"
  by (simp add: is_ready_def has_payload_def entries_store)

subsection \<open>The entry point dispatches on the verb\<close>

lemma fetch_dispatch:
  "fetch \<lparr>request_method = ''PUT'', json_body = b\<rparr> h s = store \<lparr>request_method = ''PUT'', json_body = b\<rparr> h s"
  "fetch \<lparr>request_method = ''GET'', json_body = b\<rparr> h s = retrieve h s"
  "fetch \<lparr>request_method = ''DELETE'', json_body = b\<rparr> h s = acknowledge h s"
  by (simp_all add: fetch_def)

lemma fetch_other_verb:
  "request_method request \<notin> {''PUT'', ''GET'', ''DELETE''} \<Longrightarrow>
   fetch request h s = (Inr \<lparr>status = 405, body = Text ''Method not allowed''\<rparr>, s)"
  by (simp add: fetch_def Response_text_def)

end
